theory Spec2Isabelle
  imports Main "HOL-Library.AList" "HOL-Library.Finite_Map"
begin

section \<open>The data container of \<^verbatim>\<open>framework/results/data/data_container.hpp\<close>\<close>

subsection \<open>String-keyed maps\<close>

text \<open>
  \<^verbatim>\<open>stringmap_t<V>\<close> is a hash map from \<^verbatim>\<open>std::string\<close> to \<^verbatim>\<open>V\<close>. It is modelled by the
  list of its entries in the order in which a range-based \<^verbatim>\<open>for\<close> visits them; that order
  is not fixed by the container, so every input order is covered. The keys of a hash map
  are unique (\<open>unique_keys\<close>), and two hash maps are equal when they hold the same
  entries, that is when their \<^const>\<open>map_of\<close> views agree.
\<close>

type_synonym 'v stringmap_t = "(string \<times> 'v) list"

definition unique_keys :: "'v stringmap_t \<Rightarrow> bool" where
  "unique_keys m = distinct (map fst m)"

definition keys_of :: "'v stringmap_t \<Rightarrow> string set" where
  "keys_of m = fst ` set m"

text \<open>
  \<^verbatim>\<open>m[key]\<close> read as a value: the entry stored under \<open>key\<close>, or the value-initialised
  entry that \<^verbatim>\<open>operator[]\<close> inserts when the key is absent.
\<close>

definition subscript :: "'v \<Rightarrow> 'v stringmap_t \<Rightarrow> string \<Rightarrow> 'v" where
  "subscript dflt m key = (case map_of m key of None \<Rightarrow> dflt | Some v \<Rightarrow> v)"

text \<open>\<^verbatim>\<open>m[key] = value\<close>.\<close>

definition assign :: "string \<Rightarrow> 'v \<Rightarrow> 'v stringmap_t \<Rightarrow> 'v stringmap_t" where
  "assign key v m = AList.update key v m"

text \<open>\<^verbatim>\<open>m[key].method(args)\<close>, where \<open>f\<close> is the effect of the method on the entry.\<close>

definition modify :: "'v \<Rightarrow> ('v \<Rightarrow> 'v) \<Rightarrow> string \<Rightarrow> 'v stringmap_t \<Rightarrow> 'v stringmap_t" where
  "modify dflt f key m = AList.update key (f (subscript dflt m key)) m"

subsection \<open>The container\<close>

text \<open>
  The class \<^verbatim>\<open>DataContainer<T>\<close>. The payload type \<^verbatim>\<open>T\<close> is \<open>'a\<close>. The classes
  \<^verbatim>\<open>PershotSnapshot<T>\<close> and \<^verbatim>\<open>AverageSnapshot<T>\<close> are declared in headers that are
  not part of the sources at hand: they are the type parameters \<open>'p\<close> and \<open>'v\<close>, and
  their member functions are parameters of the operations that call them.
\<close>

record ('a, 'p, 'v) DataContainer =
  additional_data :: "'a stringmap_t"
  pershot_snapshots :: "'p stringmap_t"
  average_snapshots :: "'v stringmap_t"
  enabled :: bool

text \<open>A freshly constructed container: three empty maps, \<^verbatim>\<open>enabled_ = true\<close>.\<close>

definition new_container :: "('a, 'p, 'v) DataContainer" where
  "new_container =
     \<lparr>additional_data = [], pershot_snapshots = [], average_snapshots = [], enabled = True\<rparr>"

text \<open>
  Each insertion exists in three overloads, which differ in how the payload is passed.
\<close>

datatype passing = Rvalue | ConstRef | LvalueRef

fun add_additional_data ::
  "passing \<Rightarrow> string \<Rightarrow> 'a \<Rightarrow> ('a, 'p, 'v) DataContainer \<Rightarrow> ('a, 'p, 'v) DataContainer"
where
  "add_additional_data Rvalue key data c =
     (if enabled c then c\<lparr>additional_data := assign key data (additional_data c)\<rparr> else c)"
| "add_additional_data ConstRef key data c =
     (if enabled c then c\<lparr>additional_data := assign key data (additional_data c)\<rparr> else c)"
| "add_additional_data LvalueRef key data c =
     (if enabled c then c\<lparr>additional_data := assign key data (additional_data c)\<rparr> else c)"

text \<open>
  \<open>ps_new\<close> is the value-initialised \<^verbatim>\<open>PershotSnapshot<T>\<close> and \<open>ps_add_data label datum\<close>
  the effect of its member \<^verbatim>\<open>add_data(label, datum)\<close>.
\<close>

fun add_pershot_snapshot ::
  "'p \<Rightarrow> (string \<Rightarrow> 'a \<Rightarrow> 'p \<Rightarrow> 'p) \<Rightarrow> passing \<Rightarrow> string \<Rightarrow> string \<Rightarrow> 'a \<Rightarrow>
   ('a, 'p, 'v) DataContainer \<Rightarrow> ('a, 'p, 'v) DataContainer"
where
  "add_pershot_snapshot ps_new ps_add_data Rvalue type label datum c =
     (if enabled c
      then c\<lparr>pershot_snapshots :=
               modify ps_new (ps_add_data label datum) type (pershot_snapshots c)\<rparr>
      else c)"
| "add_pershot_snapshot ps_new ps_add_data ConstRef type label datum c =
     (if enabled c
      then c\<lparr>pershot_snapshots :=
               modify ps_new (ps_add_data label datum) type (pershot_snapshots c)\<rparr>
      else c)"
| "add_pershot_snapshot ps_new ps_add_data LvalueRef type label datum c =
     (if enabled c
      then c\<lparr>pershot_snapshots :=
               modify ps_new (ps_add_data label datum) type (pershot_snapshots c)\<rparr>
      else c)"

text \<open>
  \<open>avg_new\<close> is the value-initialised \<^verbatim>\<open>AverageSnapshot<T>\<close> and
  \<open>avg_add_data label memory datum variance\<close> the effect of its member
  \<^verbatim>\<open>add_data(label, memory, datum, variance)\<close>.
\<close>

fun add_average_snapshot ::
  "'v \<Rightarrow> (string \<Rightarrow> string \<Rightarrow> 'a \<Rightarrow> bool \<Rightarrow> 'v \<Rightarrow> 'v) \<Rightarrow> passing \<Rightarrow> string \<Rightarrow> string \<Rightarrow>
   string \<Rightarrow> 'a \<Rightarrow> bool \<Rightarrow> ('a, 'p, 'v) DataContainer \<Rightarrow> ('a, 'p, 'v) DataContainer"
where
  "add_average_snapshot avg_new avg_add_data Rvalue type label memory datum variance c =
     (if enabled c
      then c\<lparr>average_snapshots :=
               modify avg_new (avg_add_data label memory datum variance) type
                 (average_snapshots c)\<rparr>
      else c)"
| "add_average_snapshot avg_new avg_add_data ConstRef type label memory datum variance c =
     (if enabled c
      then c\<lparr>average_snapshots :=
               modify avg_new (avg_add_data label memory datum variance) type
                 (average_snapshots c)\<rparr>
      else c)"
| "add_average_snapshot avg_new avg_add_data LvalueRef type label memory datum variance c =
     (if enabled c
      then c\<lparr>average_snapshots :=
               modify avg_new (avg_add_data label memory datum variance) type
                 (average_snapshots c)\<rparr>
      else c)"

definition enable :: "bool \<Rightarrow> ('a, 'p, 'v) DataContainer \<Rightarrow> ('a, 'p, 'v) DataContainer" where
  "enable b c = c\<lparr>enabled := b\<rparr>"

definition clear :: "('a, 'p, 'v) DataContainer \<Rightarrow> ('a, 'p, 'v) DataContainer" where
  "clear c = c\<lparr>additional_data := [], average_snapshots := [], pershot_snapshots := []\<rparr>"

subsection \<open>Combine\<close>

text \<open>
  The loop \<^verbatim>\<open>for (const auto &pair : theirs) mine[pair.first] = pair.second;\<close>
\<close>

fun assign_each :: "'a stringmap_t \<Rightarrow> 'a stringmap_t \<Rightarrow> 'a stringmap_t" where
  "assign_each [] mine = mine"
| "assign_each (pair # theirs) mine = assign_each theirs (assign (fst pair) (snd pair) mine)"

text \<open>
  The loop \<^verbatim>\<open>for (const auto &pair : theirs) mine[pair.first].combine(pair.second);\<close>
  where \<open>snap_combine x y\<close> is the state of a snapshot \<open>x\<close> after \<^verbatim>\<open>x.combine(y)\<close> and
  \<open>snap_new\<close> the value-initialised snapshot.
\<close>

fun combine_each ::
  "'s \<Rightarrow> ('s \<Rightarrow> 's \<Rightarrow> 's) \<Rightarrow> 's stringmap_t \<Rightarrow> 's stringmap_t \<Rightarrow> 's stringmap_t"
where
  "combine_each snap_new snap_combine [] mine = mine"
| "combine_each snap_new snap_combine (pair # theirs) mine =
     combine_each snap_new snap_combine theirs
       (modify snap_new (\<lambda>x. snap_combine x (snd pair)) (fst pair) mine)"

text \<open>
  \<^verbatim>\<open>combine(const DataContainer<T> &other)\<close>: the copy form. \<open>other\<close> is read only; the
  result is the new state of \<^verbatim>\<open>*this\<close>.
\<close>

definition combine ::
  "'p \<Rightarrow> ('p \<Rightarrow> 'p \<Rightarrow> 'p) \<Rightarrow> 'v \<Rightarrow> ('v \<Rightarrow> 'v \<Rightarrow> 'v) \<Rightarrow>
   ('a, 'p, 'v) DataContainer \<Rightarrow> ('a, 'p, 'v) DataContainer \<Rightarrow> ('a, 'p, 'v) DataContainer"
where
  "combine ps_new ps_combine avg_new avg_combine this other =
     this\<lparr>additional_data := assign_each (additional_data other) (additional_data this),
          pershot_snapshots :=
            combine_each ps_new ps_combine (pershot_snapshots other) (pershot_snapshots this),
          average_snapshots :=
            combine_each avg_new avg_combine (average_snapshots other)
              (average_snapshots this)\<rparr>"

text \<open>
  \<^verbatim>\<open>combine(DataContainer<T> &&other)\<close>: the move form, for two distinct objects. The
  result is the pair of the new state of \<^verbatim>\<open>*this\<close> and the state in which \<open>other\<close> is
  left. The loops are those of the copy form (\<^verbatim>\<open>pair\<close> is a reference to const, so the
  entries are in fact copied), followed by \<^verbatim>\<open>other.clear()\<close>.
\<close>

definition combine_move ::
  "'p \<Rightarrow> ('p \<Rightarrow> 'p \<Rightarrow> 'p) \<Rightarrow> 'v \<Rightarrow> ('v \<Rightarrow> 'v \<Rightarrow> 'v) \<Rightarrow>
   ('a, 'p, 'v) DataContainer \<Rightarrow> ('a, 'p, 'v) DataContainer \<Rightarrow>
   ('a, 'p, 'v) DataContainer \<times> ('a, 'p, 'v) DataContainer"
where
  "combine_move ps_new ps_combine avg_new avg_combine this other =
     (this\<lparr>additional_data := assign_each (additional_data other) (additional_data this),
           pershot_snapshots :=
             combine_each ps_new ps_combine (pershot_snapshots other) (pershot_snapshots this),
           average_snapshots :=
             combine_each avg_new avg_combine (average_snapshots other)
               (average_snapshots this)\<rparr>,
      clear other)"

subsection \<open>JSON documents\<close>

text \<open>
  Modelled from the spec: \<^verbatim>\<open>framework/json.hpp\<close>, which declares \<^verbatim>\<open>json_t\<close>, is not among
  the sources. The export writes "a nested key/value document": a document is null (a
  default-constructed \<^verbatim>\<open>json_t\<close>), an object (a map from keys to documents, without
  duplicate keys and without an observable insertion order), or any other value (number,
  string, boolean, array), kept abstract in \<open>'x\<close>.
\<close>

datatype 'x json_t = JNull | JOther 'x | JObject "(string, 'x json_t) fmap"

datatype error = type_error

text \<open>
  The object behind \<^verbatim>\<open>js[key]\<close>. In the JSON library behind \<^verbatim>\<open>json_t\<close>, subscripting with a
  string turns a null document into an empty object, works on an object, and throws a type
  error on every other value.
\<close>

fun as_object :: "'x json_t \<Rightarrow> error + (string, 'x json_t) fmap" where
  "as_object JNull = Inr fmempty"
| "as_object (JObject obj) = Inr obj"
| "as_object (JOther x) = Inl type_error"

text \<open>\<^verbatim>\<open>js[key] = value;\<close>\<close>

definition set_key :: "string \<Rightarrow> 'x json_t \<Rightarrow> 'x json_t \<Rightarrow> error + 'x json_t" where
  "set_key key v js =
     (case as_object js of
        Inl e \<Rightarrow> Inl e
      | Inr obj \<Rightarrow> Inr (JObject (fmupd key v obj)))"

text \<open>
  \<^verbatim>\<open>obj[outer]\<close> read as a value: the entry of an object under \<open>outer\<close>, or the null
  entry that the subscript inserts when there is none.
\<close>

definition sub_document :: "(string, 'x json_t) fmap \<Rightarrow> string \<Rightarrow> 'x json_t" where
  "sub_document obj outer = (case fmlookup obj outer of None \<Rightarrow> JNull | Some sub \<Rightarrow> sub)"

text \<open>
  \<^verbatim>\<open>js[outer][key] = value;\<close> The second subscript acts on the entry that the first one
  refers to. When it throws, the entry under \<open>outer\<close> was there before and is not null, so
  the document is as it was.
\<close>

definition set_nested_key ::
  "string \<Rightarrow> string \<Rightarrow> 'x json_t \<Rightarrow> 'x json_t \<Rightarrow> error + 'x json_t"
where
  "set_nested_key outer key v js =
     (case as_object js of
        Inl e \<Rightarrow> Inl e
      | Inr obj \<Rightarrow>
          (case set_key key v (sub_document obj outer) of
             Inl e \<Rightarrow> Inl e
           | Inr sub' \<Rightarrow> Inr (JObject (fmupd outer sub' obj))))"

text \<open>
  A loop whose body may throw. The document is passed by reference, so the result is
  the exception, if one was thrown, together with the document as the loop left it: a
  statement that throws leaves the document as it found it.
\<close>

fun for_each ::
  "('e \<Rightarrow> 'x json_t \<Rightarrow> error + 'x json_t) \<Rightarrow> 'e list \<Rightarrow> 'x json_t \<Rightarrow> error option \<times> 'x json_t"
where
  "for_each body [] js = (None, js)"
| "for_each body (pair # rest) js =
     (case body pair js of
        Inl e \<Rightarrow> (Some e, js)
      | Inr js' \<Rightarrow> for_each body rest js')"

text \<open>
  \<^verbatim>\<open>to_json(json_t &js, const DataContainer<T> &data)\<close>. The conversions of a payload and
  of the two snapshot classes to a document are the parameters \<open>enc\<close>, \<open>enc_avg\<close> and
  \<open>enc_ps\<close>. The result is \<open>(None, js')\<close> when the call returns with the document \<open>js'\<close>,
  and \<open>(Some e, js')\<close> when it throws \<open>e\<close> and leaves the document as \<open>js'\<close>.
\<close>

definition to_json ::
  "('a \<Rightarrow> 'x json_t) \<Rightarrow> ('v \<Rightarrow> 'x json_t) \<Rightarrow> ('p \<Rightarrow> 'x json_t) \<Rightarrow>
   'x json_t \<Rightarrow> ('a, 'p, 'v) DataContainer \<Rightarrow> error option \<times> 'x json_t"
where
  "to_json enc enc_avg enc_ps js data =
     (if enabled data then
        (case for_each (\<lambda>pair. set_key (fst pair) (enc (snd pair))) (additional_data data) js of
           (Some e, js1) \<Rightarrow> (Some e, js1)
         | (None, js1) \<Rightarrow>
             (case for_each (\<lambda>pair. set_nested_key ''snapshots'' (fst pair) (enc_avg (snd pair)))
                     (average_snapshots data) js1 of
                (Some e, js2) \<Rightarrow> (Some e, js2)
              | (None, js2) \<Rightarrow>
                  for_each (\<lambda>pair. set_nested_key ''snapshots'' (fst pair) (enc_ps (snd pair)))
                    (pershot_snapshots data) js2))
      else (None, js))"

text \<open>Reading a document: the entry under a top-level key, and under \<^verbatim>\<open>"snapshots"\<close>.\<close>

fun entry :: "'x json_t \<Rightarrow> string \<Rightarrow> 'x json_t option" where
  "entry (JObject obj) key = fmlookup obj key"
| "entry JNull key = None"
| "entry (JOther x) key = None"

definition snapshot_entry :: "'x json_t \<Rightarrow> string \<Rightarrow> 'x json_t option" where
  "snapshot_entry js kind =
     (case entry js ''snapshots'' of None \<Rightarrow> None | Some sub \<Rightarrow> entry sub kind)"

text \<open>
  A document on which \<^verbatim>\<open>js["snapshots"][kind] = ...\<close> does not throw: null, or an object
  whose \<^verbatim>\<open>"snapshots"\<close> entry is absent, null or an object.
\<close>

definition accepts_snapshots :: "'x json_t \<Rightarrow> bool" where
  "accepts_snapshots js =
     (case as_object js of
        Inl e \<Rightarrow> False
      | Inr obj \<Rightarrow>
          (case as_object (sub_document obj ''snapshots'') of Inl e \<Rightarrow> False | Inr sub \<Rightarrow> True))"

subsection \<open>Calls on objects\<close>

text \<open>
  \<^verbatim>\<open>combine\<close> takes \<open>other\<close> by reference. To say what a call does to the object that
  is passed, objects live in a store, at addresses; \<open>this\<close> and \<open>other\<close> are addresses,
  and may be the same one. The copy form writes to \<^verbatim>\<open>*this\<close> only. The move form runs the
  same loops and then calls \<^verbatim>\<open>other.clear()\<close> on the object as the loops left it.
\<close>

type_synonym ('a, 'p, 'v) store = "nat \<Rightarrow> ('a, 'p, 'v) DataContainer"

definition call_combine ::
  "'p \<Rightarrow> ('p \<Rightarrow> 'p \<Rightarrow> 'p) \<Rightarrow> 'v \<Rightarrow> ('v \<Rightarrow> 'v \<Rightarrow> 'v) \<Rightarrow> nat \<Rightarrow> nat \<Rightarrow>
   ('a, 'p, 'v) store \<Rightarrow> ('a, 'p, 'v) store"
where
  "call_combine ps_new ps_combine avg_new avg_combine this other st =
     st(this := combine ps_new ps_combine avg_new avg_combine (st this) (st other))"

definition call_clear :: "nat \<Rightarrow> ('a, 'p, 'v) store \<Rightarrow> ('a, 'p, 'v) store" where
  "call_clear this st = st(this := clear (st this))"

definition call_combine_move ::
  "'p \<Rightarrow> ('p \<Rightarrow> 'p \<Rightarrow> 'p) \<Rightarrow> 'v \<Rightarrow> ('v \<Rightarrow> 'v \<Rightarrow> 'v) \<Rightarrow> nat \<Rightarrow> nat \<Rightarrow>
   ('a, 'p, 'v) store \<Rightarrow> ('a, 'p, 'v) store"
where
  "call_combine_move ps_new ps_combine avg_new avg_combine this other st =
     call_clear other (call_combine ps_new ps_combine avg_new avg_combine this other st)"

subsection \<open>Properties of containers and of the snapshot classes\<close>

definition well_formed :: "('a, 'p, 'v) DataContainer \<Rightarrow> bool" where
  "well_formed c \<longleftrightarrow>
     unique_keys (additional_data c) \<and> unique_keys (pershot_snapshots c) \<and>
     unique_keys (average_snapshots c)"

definition kinds :: "('a, 'p, 'v) DataContainer \<Rightarrow> string set" where
  "kinds c = keys_of (pershot_snapshots c) \<union> keys_of (average_snapshots c)"

definition associative :: "('s \<Rightarrow> 's \<Rightarrow> 's) \<Rightarrow> bool" where
  "associative snap_combine \<longleftrightarrow>
     (\<forall>x y z. snap_combine (snap_combine x y) z = snap_combine x (snap_combine y z))"

definition commutative :: "('s \<Rightarrow> 's \<Rightarrow> 's) \<Rightarrow> bool" where
  "commutative snap_combine \<longleftrightarrow> (\<forall>x y. snap_combine x y = snap_combine y x)"

text \<open>Combining into a value-initialised snapshot gives the snapshot combined in.\<close>

definition left_neutral :: "'s \<Rightarrow> ('s \<Rightarrow> 's \<Rightarrow> 's) \<Rightarrow> bool" where
  "left_neutral snap_new snap_combine \<longleftrightarrow> (\<forall>y. snap_combine snap_new y = y)"

section \<open>String-keyed maps: lookups, keys and uniqueness\<close>

lemma map_of_assign: "map_of (assign key v m) = (map_of m)(key \<mapsto> v)"
  by (simp add: assign_def update_conv')

lemma map_of_modify:
  "map_of (modify dflt f key m) = (map_of m)(key \<mapsto> f (subscript dflt m key))"
  by (simp add: modify_def update_conv')

lemma unique_keys_assign: "unique_keys m \<Longrightarrow> unique_keys (assign key v m)"
  by (simp add: unique_keys_def assign_def distinct_update)

lemma unique_keys_modify: "unique_keys m \<Longrightarrow> unique_keys (modify dflt f key m)"
  by (simp add: unique_keys_def modify_def distinct_update)

lemma keys_of_assign: "keys_of (assign key v m) = insert key (keys_of m)"
  by (simp add: keys_of_def assign_def dom_update)

lemma keys_of_modify: "keys_of (modify dflt f key m) = insert key (keys_of m)"
  by (simp add: keys_of_def modify_def dom_update)

lemma map_of_absent: "key \<notin> keys_of m \<Longrightarrow> map_of m key = None"
  by (simp add: keys_of_def map_of_eq_None_iff)

lemma unique_keys_Cons:
  "unique_keys (pair # m) \<longleftrightarrow> fst pair \<notin> keys_of m \<and> unique_keys m"
  by (simp add: unique_keys_def keys_of_def)

lemma keys_of_Cons: "keys_of (pair # m) = insert (fst pair) (keys_of m)"
  by (simp add: keys_of_def)

lemma keys_of_Nil: "keys_of [] = {}"
  by (simp add: keys_of_def)

lemma map_of_assign_each:
  "unique_keys theirs \<Longrightarrow>
   map_of (assign_each theirs mine) key =
     (case map_of theirs key of None \<Rightarrow> map_of mine key | Some v \<Rightarrow> Some v)"
proof (induction theirs arbitrary: mine)
  case Nil
  show ?case by simp
next
  case (Cons pair theirs)
  obtain k v where pair: "pair = (k, v)" by (cases pair)
  from Cons.prems have fresh: "map_of theirs k = None" and uniq: "unique_keys theirs"
    by (simp_all add: unique_keys_Cons pair map_of_absent)
  show ?case
    using Cons.IH [OF uniq, of "assign k v mine"] fresh
    by (auto simp add: pair map_of_assign split: option.splits)
qed

lemma map_of_combine_each:
  "unique_keys theirs \<Longrightarrow>
   map_of (combine_each snap_new snap_combine theirs mine) key =
     (case map_of theirs key of
        None \<Rightarrow> map_of mine key
      | Some y \<Rightarrow> Some (snap_combine (subscript snap_new mine key) y))"
proof (induction theirs arbitrary: mine)
  case Nil
  show ?case by simp
next
  case (Cons pair theirs)
  obtain k y where pair: "pair = (k, y)" by (cases pair)
  from Cons.prems have fresh: "map_of theirs k = None" and uniq: "unique_keys theirs"
    by (simp_all add: unique_keys_Cons pair map_of_absent)
  show ?case
    using Cons.IH [OF uniq, of "modify snap_new (\<lambda>x. snap_combine x y) k mine"] fresh
    by (auto simp add: pair map_of_modify subscript_def split: option.splits)
qed

lemma unique_keys_assign_each:
  "unique_keys mine \<Longrightarrow> unique_keys (assign_each theirs mine)"
  by (induction theirs arbitrary: mine) (simp_all add: unique_keys_assign)

lemma unique_keys_combine_each:
  "unique_keys mine \<Longrightarrow> unique_keys (combine_each snap_new snap_combine theirs mine)"
  by (induction theirs arbitrary: mine) (simp_all add: unique_keys_modify)

lemma keys_of_assign_each: "keys_of (assign_each theirs mine) = keys_of mine \<union> keys_of theirs"
  by (induction theirs arbitrary: mine) (auto simp add: keys_of_assign keys_of_Cons keys_of_Nil)

lemma keys_of_combine_each:
  "keys_of (combine_each snap_new snap_combine theirs mine) = keys_of mine \<union> keys_of theirs"
  by (induction theirs arbitrary: mine) (auto simp add: keys_of_modify keys_of_Cons keys_of_Nil)

text \<open>Combining a map into itself.\<close>

lemma map_of_assign_each_self:
  "unique_keys m \<Longrightarrow> map_of (assign_each m m) = map_of m"
  by (rule ext) (simp add: map_of_assign_each split: option.splits)

lemma map_of_combine_each_self:
  "unique_keys m \<Longrightarrow>
   map_of (combine_each snap_new snap_combine m m) key =
     map_option (\<lambda>x. snap_combine x x) (map_of m key)"
  by (simp add: map_of_combine_each subscript_def split: option.splits)

section \<open>Documents: what a statement and a loop change\<close>

lemma as_object_cases:
  obtains (object) obj where "as_object js = Inr obj" | (other) "as_object js = Inl type_error"
  by (cases js) simp_all

lemma entry_as_object: "as_object js = Inr obj \<Longrightarrow> entry js key = fmlookup obj key"
  by (cases js) auto

lemma entry_no_object: "as_object js = Inl e \<Longrightarrow> entry js key = None"
  by (cases js) auto

lemma entry_sub_document:
  "as_object js = Inr obj \<Longrightarrow> as_object (sub_document obj outer) = Inr sub \<Longrightarrow>
   (case entry js outer of None \<Rightarrow> None | Some s \<Rightarrow> entry s key) = fmlookup sub key"
  by (auto simp add: entry_as_object sub_document_def split: option.splits)

lemma set_key_Inr:
  "set_key key v js = Inr js' \<longleftrightarrow> (\<exists>obj. as_object js = Inr obj \<and> js' = JObject (fmupd key v obj))"
  by (auto simp add: set_key_def split: sum.splits)

lemma set_nested_key_Inr:
  "set_nested_key outer key v js = Inr js' \<longleftrightarrow>
     (\<exists>obj sub. as_object js = Inr obj \<and> as_object (sub_document obj outer) = Inr sub \<and>
        js' = JObject (fmupd outer (JObject (fmupd key v sub)) obj))"
  by (auto simp add: set_nested_key_def set_key_def sub_document_def split: sum.splits)

text \<open>What one statement leaves alone.\<close>

lemma set_key_entry:
  "set_key key v js = Inr js' \<Longrightarrow> key' \<noteq> key \<Longrightarrow> entry js' key' = entry js key'"
  by (auto simp add: set_key_Inr entry_as_object)

lemma set_nested_key_entry:
  "set_nested_key outer key v js = Inr js' \<Longrightarrow> key' \<noteq> outer \<Longrightarrow> entry js' key' = entry js key'"
  by (auto simp add: set_nested_key_Inr entry_as_object)

lemma set_key_snapshot_entry:
  "set_key key v js = Inr js' \<Longrightarrow> key \<noteq> ''snapshots'' \<Longrightarrow>
   snapshot_entry js' kind = snapshot_entry js kind"
  by (simp add: snapshot_entry_def set_key_entry)

lemma set_nested_key_snapshot_entry:
  assumes "set_nested_key ''snapshots'' key v js = Inr js'"
  shows "snapshot_entry js' kind = (if kind = key then Some v else snapshot_entry js kind)"
proof -
  from assms obtain obj sub where obj: "as_object js = Inr obj"
    and sub: "as_object (sub_document obj ''snapshots'') = Inr sub"
    and js': "js' = JObject (fmupd ''snapshots'' (JObject (fmupd key v sub)) obj)"
    by (auto simp add: set_nested_key_Inr)
  have "snapshot_entry js kind = fmlookup sub kind"
    unfolding snapshot_entry_def by (rule entry_sub_document [OF obj sub])
  then show ?thesis by (simp add: js' snapshot_entry_def)
qed

text \<open>A property that every statement of a loop keeps is kept by the loop.\<close>

lemma for_each_invariant:
  assumes "\<And>pair s s'. pair \<in> set xs \<Longrightarrow> body pair s = Inr s' \<Longrightarrow> P s \<Longrightarrow> P s'"
    and "P js"
  shows "P (snd (for_each body xs js))"
  using assms
proof (induction xs arbitrary: js)
  case Nil
  then show ?case by simp
next
  case (Cons pair xs)
  show ?case
  proof (cases "body pair js")
    case (Inl e)
    with Cons.prems show ?thesis by simp
  next
    case (Inr js1)
    have "P js1" using Cons.prems(1) [of pair js js1] Cons.prems(2) Inr by simp
    then have "P (snd (for_each body xs js1))"
      using Cons.prems(1) by (intro Cons.IH) auto
    with Inr show ?thesis by simp
  qed
qed

text \<open>A loop whose statements all succeed on the documents it meets returns.\<close>

lemma for_each_returns:
  assumes "\<And>pair s. pair \<in> set xs \<Longrightarrow> P s \<Longrightarrow> \<exists>s'. body pair s = Inr s' \<and> P s'"
    and "P js"
  shows "fst (for_each body xs js) = None \<and> P (snd (for_each body xs js))"
  using assms
proof (induction xs arbitrary: js)
  case Nil
  then show ?case by simp
next
  case (Cons pair xs)
  from Cons.prems obtain js1 where step: "body pair js = Inr js1" and "P js1"
    by (meson list.set_intros(1))
  then have "fst (for_each body xs js1) = None \<and> P (snd (for_each body xs js1))"
    using Cons.prems(1) by (intro Cons.IH) auto
  with step show ?case by simp
qed

lemma set_key_accepts:
  assumes "accepts_snapshots js" and "key \<noteq> ''snapshots''"
  shows "\<exists>js'. set_key key v js = Inr js' \<and> accepts_snapshots js'"
  using assms
  by (auto simp add: accepts_snapshots_def set_key_def sub_document_def split: sum.splits)

lemma set_nested_key_accepts:
  assumes "accepts_snapshots js"
  shows "\<exists>js'. set_nested_key ''snapshots'' key v js = Inr js' \<and> accepts_snapshots js'"
  using assms
  by (auto simp add: accepts_snapshots_def set_nested_key_def set_key_def sub_document_def
      split: sum.splits)

text \<open>The entry that a loop over the snapshots writes under a kind.\<close>

lemma for_each_snapshot_entry_absent:
  assumes "kind \<notin> keys_of xs"
  shows "snapshot_entry
           (snd (for_each (\<lambda>pair. set_nested_key ''snapshots'' (fst pair) (f (snd pair))) xs js))
           kind = snapshot_entry js kind"
proof (rule for_each_invariant [where P = "\<lambda>s. snapshot_entry s kind = snapshot_entry js kind"])
  fix pair s s'
  assume "pair \<in> set xs"
    and "set_nested_key ''snapshots'' (fst pair) (f (snd pair)) s = Inr s'"
    and "snapshot_entry s kind = snapshot_entry js kind"
  moreover from \<open>pair \<in> set xs\<close> assms have "kind \<noteq> fst pair"
    by (auto simp add: keys_of_def)
  ultimately show "snapshot_entry s' kind = snapshot_entry js kind"
    by (simp add: set_nested_key_snapshot_entry)
qed simp

lemma for_each_snapshot_entry_present:
  assumes "unique_keys xs" and "map_of xs kind = Some x"
    and "fst (for_each (\<lambda>pair. set_nested_key ''snapshots'' (fst pair) (f (snd pair))) xs js) = None"
  shows "snapshot_entry
           (snd (for_each (\<lambda>pair. set_nested_key ''snapshots'' (fst pair) (f (snd pair))) xs js))
           kind = Some (f x)"
  using assms
proof (induction xs arbitrary: js)
  case Nil
  then show ?case by simp
next
  case (Cons pair xs)
  let ?body = "\<lambda>pair. set_nested_key ''snapshots'' (fst pair) (f (snd pair))"
  from Cons.prems(3) obtain js1 where step: "?body pair js = Inr js1"
    by (cases "?body pair js") auto
  with Cons.prems(3) have rest: "fst (for_each ?body xs js1) = None" by simp
  from Cons.prems(1) have fresh: "fst pair \<notin> keys_of xs" and uniq: "unique_keys xs"
    by (simp_all add: unique_keys_Cons)
  show ?case
  proof (cases "fst pair = kind")
    case True
    with Cons.prems(2) have "snd pair = x" by (cases pair) simp
    with step True have "snapshot_entry js1 kind = Some (f x)"
      by (simp add: set_nested_key_snapshot_entry)
    moreover have "snapshot_entry (snd (for_each ?body xs js1)) kind = snapshot_entry js1 kind"
      using fresh True by (intro for_each_snapshot_entry_absent) simp
    ultimately show ?thesis using step by simp
  next
    case False
    with Cons.prems(2) have "map_of xs kind = Some x" by (cases pair) (simp split: if_splits)
    from Cons.IH [OF uniq this rest] step show ?thesis by simp
  qed
qed

lemma in_keys_of: "pair \<in> set m \<Longrightarrow> fst pair \<in> keys_of m"
  by (simp add: keys_of_def)

lemma to_json_enabled:
  assumes "enabled data"
  shows "to_json enc enc_avg enc_ps js data =
     (let r1 = for_each (\<lambda>pair. set_key (fst pair) (enc (snd pair))) (additional_data data) js
      in if fst r1 \<noteq> None then r1
         else let r2 = for_each (\<lambda>pair. set_nested_key ''snapshots'' (fst pair) (enc_avg (snd pair)))
                         (average_snapshots data) (snd r1)
              in if fst r2 \<noteq> None then r2
                 else for_each (\<lambda>pair. set_nested_key ''snapshots'' (fst pair) (enc_ps (snd pair)))
                        (pershot_snapshots data) (snd r2))"
  using assms by (auto simp add: to_json_def Let_def split: prod.splits option.splits)

lemma for_each_entry_absent:
  assumes "key \<notin> keys_of xs"
  shows "entry (snd (for_each (\<lambda>pair. set_key (fst pair) (f (snd pair))) xs js)) key = entry js key"
proof (rule for_each_invariant [where P = "\<lambda>s. entry s key = entry js key"])
  fix pair s s'
  assume "pair \<in> set xs" and "set_key (fst pair) (f (snd pair)) s = Inr s'"
    and "entry s key = entry js key"
  moreover from \<open>pair \<in> set xs\<close> assms have "key \<noteq> fst pair"
    by (auto simp add: keys_of_def)
  ultimately show "entry s' key = entry js key"
    by (simp add: set_key_entry)
qed simp

lemma for_each_nested_entry:
  assumes "key \<noteq> outer"
  shows "entry (snd (for_each (\<lambda>pair. set_nested_key outer (fst pair) (f (snd pair))) xs js)) key =
         entry js key"
proof (rule for_each_invariant [where P = "\<lambda>s. entry s key = entry js key"])
  fix pair s s'
  assume "set_nested_key outer (fst pair) (f (snd pair)) s = Inr s'"
    and "entry s key = entry js key"
  with assms show "entry s' key = entry js key"
    by (simp add: set_nested_key_entry)
qed simp

lemma for_each_keeps_snapshots:
  assumes "''snapshots'' \<notin> keys_of xs"
  shows "snapshot_entry (snd (for_each (\<lambda>pair. set_key (fst pair) (f (snd pair))) xs js)) kind =
         snapshot_entry js kind"
  using for_each_entry_absent [OF assms, of f js] by (simp add: snapshot_entry_def)

lemma fold_fmupd_lookup:
  "unique_keys xs \<Longrightarrow>
   fmlookup (fold (\<lambda>pair. fmupd (fst pair) (f (snd pair))) xs obj) key =
     (case map_of xs key of None \<Rightarrow> fmlookup obj key | Some v \<Rightarrow> Some (f v))"
proof (induction xs arbitrary: obj)
  case Nil
  show ?case by simp
next
  case (Cons pair xs)
  obtain k v where pair: "pair = (k, v)" by (cases pair)
  from Cons.prems have fresh: "map_of xs k = None" and uniq: "unique_keys xs"
    by (simp_all add: unique_keys_Cons pair map_of_absent)
  show ?case
    using Cons.IH [OF uniq, of "fmupd k (f v) obj"] fresh
    by (auto simp add: pair split: option.splits)
qed

lemma fold_fmupd_cong:
  assumes "unique_keys xs" and "unique_keys ys" and "map_of xs = map_of ys"
  shows "fold (\<lambda>pair. fmupd (fst pair) (f (snd pair))) xs obj =
         fold (\<lambda>pair. fmupd (fst pair) (f (snd pair))) ys obj"
  by (rule fmap_ext) (simp add: fold_fmupd_lookup assms)

lemma same_entries_Nil:
  assumes "map_of xs = map_of ys"
  shows "xs = [] \<longleftrightarrow> ys = []"
  using assms map_of_eq_empty_iff [of xs] map_of_eq_empty_iff [of ys] by auto

lemma for_each_set_key:
  "for_each (\<lambda>pair. set_key (fst pair) (f (snd pair))) xs js =
     (if xs = [] then (None, js)
      else case as_object js of
             Inl e \<Rightarrow> (Some e, js)
           | Inr obj \<Rightarrow> (None, JObject (fold (\<lambda>pair. fmupd (fst pair) (f (snd pair))) xs obj)))"
proof (induction xs arbitrary: js)
  case Nil
  show ?case by simp
next
  case (Cons pair xs)
  show ?case
  proof (cases js rule: as_object_cases)
    case (object obj)
    then have "set_key (fst pair) (f (snd pair)) js =
        Inr (JObject (fmupd (fst pair) (f (snd pair)) obj))"
      by (simp add: set_key_def)
    with object show ?thesis by (simp add: Cons.IH)
  next
    case other
    then have "set_key (fst pair) (f (snd pair)) js = Inl type_error"
      by (simp add: set_key_def)
    with other show ?thesis by simp
  qed
qed

lemma for_each_set_nested_key:
  "for_each (\<lambda>pair. set_nested_key outer (fst pair) (f (snd pair))) xs js =
     (if xs = [] then (None, js)
      else case as_object js of
             Inl e \<Rightarrow> (Some e, js)
           | Inr obj \<Rightarrow>
               (case as_object (sub_document obj outer) of
                  Inl e \<Rightarrow> (Some e, js)
                | Inr sub \<Rightarrow>
                    (None, JObject (fmupd outer
                       (JObject (fold (\<lambda>pair. fmupd (fst pair) (f (snd pair))) xs sub)) obj))))"
proof (induction xs arbitrary: js)
  case Nil
  show ?case by simp
next
  case (Cons pair xs)
  show ?case
  proof (cases js rule: as_object_cases)
    case (object obj)
    show ?thesis
    proof (cases "sub_document obj outer" rule: as_object_cases)
      case (object sub)
      with \<open>as_object js = Inr obj\<close>
      have "set_nested_key outer (fst pair) (f (snd pair)) js =
          Inr (JObject (fmupd outer (JObject (fmupd (fst pair) (f (snd pair)) sub)) obj))"
        by (simp add: set_nested_key_def set_key_def sub_document_def)
      with object \<open>as_object js = Inr obj\<close> show ?thesis
        by (simp add: Cons.IH sub_document_def)
    next
      case other
      with \<open>as_object js = Inr obj\<close>
      have "set_nested_key outer (fst pair) (f (snd pair)) js = Inl type_error"
        by (simp add: set_nested_key_def set_key_def sub_document_def)
      with other \<open>as_object js = Inr obj\<close> show ?thesis by simp
    qed
  next
    case other
    then have "set_nested_key outer (fst pair) (f (snd pair)) js = Inl type_error"
      by (simp add: set_nested_key_def)
    with other show ?thesis by simp
  qed
qed

lemma for_each_set_key_cong:
  assumes "unique_keys xs" and "unique_keys ys" and "map_of xs = map_of ys"
  shows "for_each (\<lambda>pair. set_key (fst pair) (f (snd pair))) xs js =
         for_each (\<lambda>pair. set_key (fst pair) (f (snd pair))) ys js"
  using same_entries_Nil [OF assms(3)] fold_fmupd_cong [OF assms, of f]
  by (simp add: for_each_set_key split: sum.splits)

lemma for_each_set_nested_key_cong:
  assumes "unique_keys xs" and "unique_keys ys" and "map_of xs = map_of ys"
  shows "for_each (\<lambda>pair. set_nested_key outer (fst pair) (f (snd pair))) xs js =
         for_each (\<lambda>pair. set_nested_key outer (fst pair) (f (snd pair))) ys js"
  using same_entries_Nil [OF assms(3)] fold_fmupd_cong [OF assms, of f]
  by (simp add: for_each_set_nested_key split: sum.splits)

lemma to_json_cong:
  assumes "well_formed c" and "well_formed d" and "enabled c = enabled d"
    and "map_of (additional_data c) = map_of (additional_data d)"
    and "map_of (pershot_snapshots c) = map_of (pershot_snapshots d)"
    and "map_of (average_snapshots c) = map_of (average_snapshots d)"
  shows "to_json enc enc_avg enc_ps js c = to_json enc enc_avg enc_ps js d"
proof -
  have extras: "for_each (\<lambda>pair. set_key (fst pair) (enc (snd pair))) (additional_data c) =
        for_each (\<lambda>pair. set_key (fst pair) (enc (snd pair))) (additional_data d)"
    using assms by (intro ext for_each_set_key_cong) (simp_all add: well_formed_def)
  have average: "for_each (\<lambda>pair. set_nested_key ''snapshots'' (fst pair) (enc_avg (snd pair)))
          (average_snapshots c) =
        for_each (\<lambda>pair. set_nested_key ''snapshots'' (fst pair) (enc_avg (snd pair)))
          (average_snapshots d)"
    using assms by (intro ext for_each_set_nested_key_cong) (simp_all add: well_formed_def)
  have pershot: "for_each (\<lambda>pair. set_nested_key ''snapshots'' (fst pair) (enc_ps (snd pair)))
          (pershot_snapshots c) =
        for_each (\<lambda>pair. set_nested_key ''snapshots'' (fst pair) (enc_ps (snd pair)))
          (pershot_snapshots d)"
    using assms by (intro ext for_each_set_nested_key_cong) (simp_all add: well_formed_def)
  show ?thesis
    unfolding to_json_def extras average pershot assms(3) ..
qed

section \<open>Unique keys are kept; regrouping combine\<close>

text \<open>
  A container is constructed with unique keys, and every operation keeps them unique.
\<close>

lemma well_formed_new_container: "well_formed new_container"
  by (simp add: well_formed_def new_container_def unique_keys_def)

lemma well_formed_add_additional_data:
  "well_formed c \<Longrightarrow> well_formed (add_additional_data how key data c)"
  by (cases how) (simp_all add: well_formed_def unique_keys_assign)

lemma well_formed_add_pershot_snapshot:
  "well_formed c \<Longrightarrow>
   well_formed (add_pershot_snapshot ps_new ps_add_data how type label datum c)"
  by (cases how) (simp_all add: well_formed_def unique_keys_modify)

lemma well_formed_add_average_snapshot:
  "well_formed c \<Longrightarrow>
   well_formed (add_average_snapshot avg_new avg_add_data how type label memory datum variance c)"
  by (cases how) (simp_all add: well_formed_def unique_keys_modify)

lemma well_formed_clear: "well_formed (clear c)"
  by (simp add: well_formed_def clear_def unique_keys_def)

lemma well_formed_combine:
  "well_formed this \<Longrightarrow>
   well_formed (combine ps_new ps_combine avg_new avg_combine this other)"
  by (simp add: well_formed_def combine_def unique_keys_assign_each unique_keys_combine_each)

lemma assign_each_assoc:
  assumes "unique_keys b" and "unique_keys c"
  shows "map_of (assign_each c (assign_each b a)) = map_of (assign_each (assign_each c b) a)"
proof
  fix key
  have "unique_keys (assign_each c b)"
    using assms(1) by (rule unique_keys_assign_each)
  then show "map_of (assign_each c (assign_each b a)) key =
      map_of (assign_each (assign_each c b) a) key"
    using assms by (simp add: map_of_assign_each split: option.splits)
qed

lemma combine_each_assoc:
  assumes "associative snap_combine" and "left_neutral snap_new snap_combine"
    and "unique_keys b" and "unique_keys c"
  shows "map_of (combine_each snap_new snap_combine c (combine_each snap_new snap_combine b a)) =
         map_of (combine_each snap_new snap_combine (combine_each snap_new snap_combine c b) a)"
proof
  fix key
  have assoc: "snap_combine (snap_combine x y) z = snap_combine x (snap_combine y z)" for x y z
    using assms(1) by (simp add: associative_def)
  have neutral: "snap_combine snap_new y = y" for y
    using assms(2) by (simp add: left_neutral_def)
  have "unique_keys (combine_each snap_new snap_combine c b)"
    using assms(3) by (rule unique_keys_combine_each)
  then show "map_of (combine_each snap_new snap_combine c
                 (combine_each snap_new snap_combine b a)) key =
      map_of (combine_each snap_new snap_combine
                 (combine_each snap_new snap_combine c b) a) key"
    using assms(3,4)
    by (simp add: map_of_combine_each subscript_def assoc neutral split: option.splits)
qed

section \<open>The properties of the container\<close>

text \<open>
  C1. Combine is associative, as amended. Let the \<^verbatim>\<open>combine\<close> of each snapshot class be
  associative, and let combining into a value-initialised snapshot give the snapshot combined
  in (the entry that \<^verbatim>\<open>operator[]\<close> creates for a new kind is such a snapshot). Then for any
  three containers with unique keys, \<^verbatim>\<open>combine(combine(A, B), C)\<close> and
  \<^verbatim>\<open>combine(A, combine(B, C))\<close> hold the same three maps, and their exports into any
  document are equal. Neither commutativity nor disjoint kinds are needed.
\<close>

theorem combine_associative:
  assumes "associative ps_combine" and "left_neutral ps_new ps_combine"
    and "associative avg_combine" and "left_neutral avg_new avg_combine"
    and "well_formed A" and "well_formed B" and "well_formed C"
  shows "map_of (additional_data
            (combine ps_new ps_combine avg_new avg_combine
               (combine ps_new ps_combine avg_new avg_combine A B) C)) =
         map_of (additional_data
            (combine ps_new ps_combine avg_new avg_combine A
               (combine ps_new ps_combine avg_new avg_combine B C))) \<and>
         map_of (pershot_snapshots
            (combine ps_new ps_combine avg_new avg_combine
               (combine ps_new ps_combine avg_new avg_combine A B) C)) =
         map_of (pershot_snapshots
            (combine ps_new ps_combine avg_new avg_combine A
               (combine ps_new ps_combine avg_new avg_combine B C))) \<and>
         map_of (average_snapshots
            (combine ps_new ps_combine avg_new avg_combine
               (combine ps_new ps_combine avg_new avg_combine A B) C)) =
         map_of (average_snapshots
            (combine ps_new ps_combine avg_new avg_combine A
               (combine ps_new ps_combine avg_new avg_combine B C))) \<and>
         to_json enc enc_avg enc_ps js
            (combine ps_new ps_combine avg_new avg_combine
               (combine ps_new ps_combine avg_new avg_combine A B) C) =
         to_json enc enc_avg enc_ps js
            (combine ps_new ps_combine avg_new avg_combine A
               (combine ps_new ps_combine avg_new avg_combine B C))"
proof -
  let ?L = "combine ps_new ps_combine avg_new avg_combine
              (combine ps_new ps_combine avg_new avg_combine A B) C"
  let ?R = "combine ps_new ps_combine avg_new avg_combine A
              (combine ps_new ps_combine avg_new avg_combine B C)"
  have extras: "map_of (additional_data ?L) = map_of (additional_data ?R)"
    using assms(6,7) by (simp add: combine_def well_formed_def assign_each_assoc)
  have pershot: "map_of (pershot_snapshots ?L) = map_of (pershot_snapshots ?R)"
    using assms(1,2,6,7) by (simp add: combine_def well_formed_def combine_each_assoc)
  have average: "map_of (average_snapshots ?L) = map_of (average_snapshots ?R)"
    using assms(3,4,6,7) by (simp add: combine_def well_formed_def combine_each_assoc)
  have "well_formed ?L" and "well_formed ?R"
    using assms(5) by (simp_all add: well_formed_combine)
  moreover have "enabled ?L = enabled ?R"
    by (simp add: combine_def)
  ultimately have "to_json enc enc_avg enc_ps js ?L = to_json enc enc_avg enc_ps js ?R"
    using extras pershot average by (intro to_json_cong)
  with extras pershot average show ?thesis by simp
qed

theorem combine_associative_witness:
  "associative ((+) :: nat \<Rightarrow> nat \<Rightarrow> nat) \<and> left_neutral (0 :: nat) (+) \<and>
   well_formed \<lparr>additional_data = [(''shots'', 10 :: nat)],
       pershot_snapshots = [(''counts'', 1 :: nat)],
       average_snapshots = [] :: (string \<times> nat) list, enabled = True\<rparr> \<and>
   well_formed \<lparr>additional_data = [(''shots'', 20 :: nat)],
       pershot_snapshots = [(''counts'', 2 :: nat)],
       average_snapshots = [(''probs'', 3 :: nat)], enabled = True\<rparr> \<and>
   well_formed \<lparr>additional_data = [] :: (string \<times> nat) list,
       pershot_snapshots = [(''memory'', 5), (''counts'', 4 :: nat)],
       average_snapshots = [(''probs'', 6 :: nat)], enabled = False\<rparr> \<and>
   map_of (pershot_snapshots
     (combine 0 (+) 0 (+)
        (combine 0 (+) 0 (+)
           \<lparr>additional_data = [(''shots'', 10 :: nat)],
             pershot_snapshots = [(''counts'', 1 :: nat)],
             average_snapshots = [] :: (string \<times> nat) list, enabled = True\<rparr>
           \<lparr>additional_data = [(''shots'', 20 :: nat)],
             pershot_snapshots = [(''counts'', 2 :: nat)],
             average_snapshots = [(''probs'', 3 :: nat)], enabled = True\<rparr>)
        \<lparr>additional_data = [] :: (string \<times> nat) list,
          pershot_snapshots = [(''memory'', 5), (''counts'', 4 :: nat)],
          average_snapshots = [(''probs'', 6 :: nat)], enabled = False\<rparr>)) =
   map_of (pershot_snapshots
     (combine 0 (+) 0 (+)
        \<lparr>additional_data = [(''shots'', 10 :: nat)],
          pershot_snapshots = [(''counts'', 1 :: nat)],
          average_snapshots = [] :: (string \<times> nat) list, enabled = True\<rparr>
        (combine 0 (+) 0 (+)
           \<lparr>additional_data = [(''shots'', 20 :: nat)],
             pershot_snapshots = [(''counts'', 2 :: nat)],
             average_snapshots = [(''probs'', 3 :: nat)], enabled = True\<rparr>
           \<lparr>additional_data = [] :: (string \<times> nat) list,
             pershot_snapshots = [(''memory'', 5), (''counts'', 4 :: nat)],
             average_snapshots = [(''probs'', 6 :: nat)], enabled = False\<rparr>))) \<and>
   to_json JOther JOther JOther (JNull :: nat json_t)
     (combine 0 (+) 0 (+)
        (combine 0 (+) 0 (+)
           \<lparr>additional_data = [(''shots'', 10 :: nat)],
             pershot_snapshots = [(''counts'', 1 :: nat)],
             average_snapshots = [] :: (string \<times> nat) list, enabled = True\<rparr>
           \<lparr>additional_data = [(''shots'', 20 :: nat)],
             pershot_snapshots = [(''counts'', 2 :: nat)],
             average_snapshots = [(''probs'', 3 :: nat)], enabled = True\<rparr>)
        \<lparr>additional_data = [] :: (string \<times> nat) list,
          pershot_snapshots = [(''memory'', 5), (''counts'', 4 :: nat)],
          average_snapshots = [(''probs'', 6 :: nat)], enabled = False\<rparr>) =
   to_json JOther JOther JOther (JNull :: nat json_t)
     (combine 0 (+) 0 (+)
        \<lparr>additional_data = [(''shots'', 10 :: nat)],
          pershot_snapshots = [(''counts'', 1 :: nat)],
          average_snapshots = [] :: (string \<times> nat) list, enabled = True\<rparr>
        (combine 0 (+) 0 (+)
           \<lparr>additional_data = [(''shots'', 20 :: nat)],
             pershot_snapshots = [(''counts'', 2 :: nat)],
             average_snapshots = [(''probs'', 3 :: nat)], enabled = True\<rparr>
           \<lparr>additional_data = [] :: (string \<times> nat) list,
             pershot_snapshots = [(''memory'', 5), (''counts'', 4 :: nat)],
             average_snapshots = [(''probs'', 6 :: nat)], enabled = False\<rparr>))"
proof -
  have assoc: "associative ((+) :: nat \<Rightarrow> nat \<Rightarrow> nat)"
    by (simp add: associative_def)
  have neutral: "left_neutral (0 :: nat) (+)"
    by (simp add: left_neutral_def)
  have A: "well_formed \<lparr>additional_data = [(''shots'', 10 :: nat)],
       pershot_snapshots = [(''counts'', 1 :: nat)],
       average_snapshots = [] :: (string \<times> nat) list, enabled = True\<rparr>"
    by (simp add: well_formed_def unique_keys_def)
  have B: "well_formed \<lparr>additional_data = [(''shots'', 20 :: nat)],
       pershot_snapshots = [(''counts'', 2 :: nat)],
       average_snapshots = [(''probs'', 3 :: nat)], enabled = True\<rparr>"
    by (simp add: well_formed_def unique_keys_def)
  have C: "well_formed \<lparr>additional_data = [] :: (string \<times> nat) list,
       pershot_snapshots = [(''memory'', 5), (''counts'', 4 :: nat)],
       average_snapshots = [(''probs'', 6 :: nat)], enabled = False\<rparr>"
    by (simp add: well_formed_def unique_keys_def)
  show ?thesis
    using combine_associative [OF assoc neutral assoc neutral A B C,
        of JOther JOther JOther "JNull :: nat json_t"] assoc neutral A B C
    by simp
qed

text \<open>
  Associativity and commutativity of the snapshot's \<^verbatim>\<open>combine\<close> alone do not suffice, even
  for containers with disjoint kinds. Take snapshots that are numbers, combined by addition,
  with the value-initialised snapshot 1: a kind held by \<open>C\<close> only is combined into a fresh
  entry once in the first grouping and twice in the second.
\<close>

theorem combine_associative_counterexample:
  "associative ((+) :: nat \<Rightarrow> nat \<Rightarrow> nat) \<and> commutative ((+) :: nat \<Rightarrow> nat \<Rightarrow> nat) \<and>
   kinds (new_container :: (nat, nat, nat) DataContainer) \<inter>
     kinds \<lparr>additional_data = [] :: (string \<times> nat) list,
       pershot_snapshots = [(''counts'', 5 :: nat)],
       average_snapshots = [] :: (string \<times> nat) list, enabled = True\<rparr> = {} \<and>
   keys_of (pershot_snapshots \<lparr>additional_data = [] :: (string \<times> nat) list,
       pershot_snapshots = [(''counts'', 5 :: nat)],
       average_snapshots = [] :: (string \<times> nat) list, enabled = True\<rparr>) \<inter>
     keys_of (average_snapshots \<lparr>additional_data = [] :: (string \<times> nat) list,
       pershot_snapshots = [(''counts'', 5 :: nat)],
       average_snapshots = [] :: (string \<times> nat) list, enabled = True\<rparr>) = {} \<and>
   map_of (pershot_snapshots
     (combine 1 (+) 1 (+)
        (combine 1 (+) 1 (+) new_container new_container)
        \<lparr>additional_data = [] :: (string \<times> nat) list,
          pershot_snapshots = [(''counts'', 5 :: nat)],
          average_snapshots = [] :: (string \<times> nat) list, enabled = True\<rparr>)) ''counts'' = Some 6 \<and>
   map_of (pershot_snapshots
     (combine 1 (+) 1 (+) new_container
        (combine 1 (+) 1 (+) new_container
           \<lparr>additional_data = [] :: (string \<times> nat) list,
             pershot_snapshots = [(''counts'', 5 :: nat)],
             average_snapshots = [] :: (string \<times> nat) list, enabled = True\<rparr>))) ''counts'' = Some 7"
  by (simp add: associative_def commutative_def kinds_def keys_of_def new_container_def
      combine_def modify_def subscript_def)

text \<open>
  C2. Move-combine empties the source. After \<^verbatim>\<open>this.combine(std::move(other))\<close> the three maps
  of \<open>other\<close> are empty and its flag is the one it had before the call: for the pair of
  states that the move form returns, and for the call on two objects of a store, also when
  \<open>this\<close> and \<open>other\<close> are the same object.
\<close>

theorem move_combine_empties_source:
  "additional_data (snd (combine_move ps_new ps_combine avg_new avg_combine this other)) = [] \<and>
   pershot_snapshots (snd (combine_move ps_new ps_combine avg_new avg_combine this other)) = [] \<and>
   average_snapshots (snd (combine_move ps_new ps_combine avg_new avg_combine this other)) = [] \<and>
   enabled (snd (combine_move ps_new ps_combine avg_new avg_combine this other)) = enabled other \<and>
   additional_data
     (call_combine_move ps_new ps_combine avg_new avg_combine dst src st src) = [] \<and>
   pershot_snapshots
     (call_combine_move ps_new ps_combine avg_new avg_combine dst src st src) = [] \<and>
   average_snapshots
     (call_combine_move ps_new ps_combine avg_new avg_combine dst src st src) = [] \<and>
   enabled (call_combine_move ps_new ps_combine avg_new avg_combine dst src st src) =
     enabled (st src)"
  by (simp add: combine_move_def call_combine_move_def call_clear_def call_combine_def
      combine_def clear_def)

text \<open>
  C3. Insertion gating. On a container that is not enabled, every overload of the three
  insertions returns the container as it was: the three maps, and the flag, are unchanged.
\<close>

theorem insertion_gating:
  assumes "\<not> enabled c"
  shows "add_additional_data how1 key data c = c \<and>
         add_pershot_snapshot ps_new ps_add_data how2 type label datum c = c \<and>
         add_average_snapshot avg_new avg_add_data how3 type' label' memory datum' variance c = c"
proof (intro conjI)
  show "add_additional_data how1 key data c = c"
    using assms by (cases how1) simp_all
  show "add_pershot_snapshot ps_new ps_add_data how2 type label datum c = c"
    using assms by (cases how2) simp_all
  show "add_average_snapshot avg_new avg_add_data how3 type' label' memory datum' variance c = c"
    using assms by (cases how3) simp_all
qed

theorem insertion_gating_witness:
  "\<not> enabled \<lparr>additional_data = [(''shots'', 10 :: nat)], pershot_snapshots = [(''memory'', [1 :: nat])],
       average_snapshots = [] :: (string \<times> nat) list, enabled = False\<rparr> \<and>
   add_additional_data Rvalue ''shots'' 20
     \<lparr>additional_data = [(''shots'', 10 :: nat)], pershot_snapshots = [(''memory'', [1 :: nat])],
       average_snapshots = [] :: (string \<times> nat) list, enabled = False\<rparr> =
     \<lparr>additional_data = [(''shots'', 10)], pershot_snapshots = [(''memory'', [1])],
       average_snapshots = [], enabled = False\<rparr> \<and>
   add_pershot_snapshot [] (\<lambda>label datum xs. xs @ [datum]) ConstRef ''memory'' ''00'' 20
     \<lparr>additional_data = [(''shots'', 10 :: nat)], pershot_snapshots = [(''memory'', [1 :: nat])],
       average_snapshots = [] :: (string \<times> nat) list, enabled = False\<rparr> =
     \<lparr>additional_data = [(''shots'', 10)], pershot_snapshots = [(''memory'', [1])],
       average_snapshots = [], enabled = False\<rparr> \<and>
   add_average_snapshot 0 (\<lambda>label memory datum variance x. x + datum) LvalueRef ''probs'' ''00''
       ''0x0'' 20 True
     \<lparr>additional_data = [(''shots'', 10 :: nat)], pershot_snapshots = [(''memory'', [1 :: nat])],
       average_snapshots = [] :: (string \<times> nat) list, enabled = False\<rparr> =
     \<lparr>additional_data = [(''shots'', 10)], pershot_snapshots = [(''memory'', [1])],
       average_snapshots = [], enabled = False\<rparr>"
  using insertion_gating [of "\<lparr>additional_data = [(''shots'', 10 :: nat)],
       pershot_snapshots = [(''memory'', [1 :: nat])],
       average_snapshots = [] :: (string \<times> nat) list, enabled = False\<rparr>"
      Rvalue "''shots''" 20 "[]" "\<lambda>label datum xs. xs @ [datum]" ConstRef "''memory''" "''00''" 20
      0 "\<lambda>label memory datum variance x. x + datum" LvalueRef "''probs''" "''00''" "''0x0''" 20 True]
  by simp

text \<open>
  C4. Extras: the last writer wins. For a container \<open>other\<close> with unique keys, after
  \<^verbatim>\<open>this.combine(other)\<close>, in the copy and in the move form, the additional data of \<open>this\<close>
  maps every key of \<open>other\<close> to the value it has in \<open>other\<close>, and every other key to what
  it was mapped to in \<open>this\<close> before the call.
\<close>

theorem extras_last_writer_wins:
  assumes "unique_keys (additional_data other)"
  shows "map_of (additional_data (combine ps_new ps_combine avg_new avg_combine this other)) key =
           (case map_of (additional_data other) key of
              Some v \<Rightarrow> Some v
            | None \<Rightarrow> map_of (additional_data this) key) \<and>
         map_of (additional_data
                   (fst (combine_move ps_new ps_combine avg_new avg_combine this other))) key =
           (case map_of (additional_data other) key of
              Some v \<Rightarrow> Some v
            | None \<Rightarrow> map_of (additional_data this) key)"
  using assms
  by (simp add: combine_def combine_move_def map_of_assign_each split: option.splits)

theorem extras_last_writer_wins_witness:
  "unique_keys (additional_data
     \<lparr>additional_data = [(''shots'', 20 :: nat)], pershot_snapshots = [] :: (string \<times> nat) list,
       average_snapshots = [] :: (string \<times> nat) list, enabled = True\<rparr>) \<and>
   map_of (additional_data (combine 0 (+) 0 (+)
     \<lparr>additional_data = [(''shots'', 10 :: nat), (''seed'', 42)],
       pershot_snapshots = [] :: (string \<times> nat) list,
       average_snapshots = [] :: (string \<times> nat) list, enabled = True\<rparr>
     \<lparr>additional_data = [(''shots'', 20 :: nat)], pershot_snapshots = [] :: (string \<times> nat) list,
       average_snapshots = [] :: (string \<times> nat) list, enabled = True\<rparr>)) ''shots'' = Some 20 \<and>
   map_of (additional_data (fst (combine_move 0 (+) 0 (+)
     \<lparr>additional_data = [(''shots'', 10 :: nat), (''seed'', 42)],
       pershot_snapshots = [] :: (string \<times> nat) list,
       average_snapshots = [] :: (string \<times> nat) list, enabled = True\<rparr>
     \<lparr>additional_data = [(''shots'', 20 :: nat)], pershot_snapshots = [] :: (string \<times> nat) list,
       average_snapshots = [] :: (string \<times> nat) list, enabled = True\<rparr>))) ''shots'' = Some 20"
  using extras_last_writer_wins [of
      "\<lparr>additional_data = [(''shots'', 20 :: nat)], pershot_snapshots = [] :: (string \<times> nat) list,
        average_snapshots = [] :: (string \<times> nat) list, enabled = True\<rparr>"
      0 "(+)" 0 "(+)"
      "\<lparr>additional_data = [(''shots'', 10 :: nat), (''seed'', 42)],
        pershot_snapshots = [] :: (string \<times> nat) list,
        average_snapshots = [] :: (string \<times> nat) list, enabled = True\<rparr>" "''shots''"]
  by (simp add: unique_keys_def)

text \<open>
  C5. Combine does not depend on the flags. Two runs of combine, in the copy or in the
  move form, on operands that differ in their \<^verbatim>\<open>enabled_\<close> flags only give the same three
  maps of the destination, and leave the flag of the destination as it was. Whatever the
  flags, in both forms the keys of each map of the result are the keys of both operands,
  and (for a source with unique keys) the result holds the merged data: an additional datum
  of the source, or else the one of the destination; a snapshot of the destination combined
  with the one of the source, or else the one of the destination unchanged. So a disabled
  operand is merged like an enabled one, and nothing that the destination held is cleared.
\<close>

theorem combine_ignores_enabled:
  "additional_data (combine ps_new ps_combine avg_new avg_combine (enable en this) (enable en_other other)) =
     additional_data (combine ps_new ps_combine avg_new avg_combine (enable en' this) (enable en_other' other)) \<and>
   pershot_snapshots (combine ps_new ps_combine avg_new avg_combine (enable en this) (enable en_other other)) =
     pershot_snapshots (combine ps_new ps_combine avg_new avg_combine (enable en' this) (enable en_other' other)) \<and>
   average_snapshots (combine ps_new ps_combine avg_new avg_combine (enable en this) (enable en_other other)) =
     average_snapshots (combine ps_new ps_combine avg_new avg_combine (enable en' this) (enable en_other' other)) \<and>
   additional_data
       (fst (combine_move ps_new ps_combine avg_new avg_combine (enable en this) (enable en_other other))) =
     additional_data
       (fst (combine_move ps_new ps_combine avg_new avg_combine (enable en' this) (enable en_other' other))) \<and>
   pershot_snapshots
       (fst (combine_move ps_new ps_combine avg_new avg_combine (enable en this) (enable en_other other))) =
     pershot_snapshots
       (fst (combine_move ps_new ps_combine avg_new avg_combine (enable en' this) (enable en_other' other))) \<and>
   average_snapshots
       (fst (combine_move ps_new ps_combine avg_new avg_combine (enable en this) (enable en_other other))) =
     average_snapshots
       (fst (combine_move ps_new ps_combine avg_new avg_combine (enable en' this) (enable en_other' other))) \<and>
   keys_of (additional_data
       (combine ps_new ps_combine avg_new avg_combine (enable en this) (enable en_other other))) =
     keys_of (additional_data this) \<union> keys_of (additional_data other) \<and>
   keys_of (pershot_snapshots
       (combine ps_new ps_combine avg_new avg_combine (enable en this) (enable en_other other))) =
     keys_of (pershot_snapshots this) \<union> keys_of (pershot_snapshots other) \<and>
   keys_of (average_snapshots
       (combine ps_new ps_combine avg_new avg_combine (enable en this) (enable en_other other))) =
     keys_of (average_snapshots this) \<union> keys_of (average_snapshots other) \<and>
   keys_of (additional_data
       (fst (combine_move ps_new ps_combine avg_new avg_combine (enable en this) (enable en_other other)))) =
     keys_of (additional_data this) \<union> keys_of (additional_data other) \<and>
   keys_of (pershot_snapshots
       (fst (combine_move ps_new ps_combine avg_new avg_combine (enable en this) (enable en_other other)))) =
     keys_of (pershot_snapshots this) \<union> keys_of (pershot_snapshots other) \<and>
   keys_of (average_snapshots
       (fst (combine_move ps_new ps_combine avg_new avg_combine (enable en this) (enable en_other other)))) =
     keys_of (average_snapshots this) \<union> keys_of (average_snapshots other) \<and>
   enabled (combine ps_new ps_combine avg_new avg_combine (enable en this) (enable en_other other)) = en \<and>
   enabled (fst (combine_move ps_new ps_combine avg_new avg_combine (enable en this) (enable en_other other))) =
     en \<and>
   (well_formed other \<longrightarrow>
      map_of (additional_data
          (combine ps_new ps_combine avg_new avg_combine (enable en this) (enable en_other other))) key =
        (case map_of (additional_data other) key of
           Some v \<Rightarrow> Some v
         | None \<Rightarrow> map_of (additional_data this) key) \<and>
      map_of (pershot_snapshots
          (combine ps_new ps_combine avg_new avg_combine (enable en this) (enable en_other other))) kind =
        (case map_of (pershot_snapshots other) kind of
           Some y \<Rightarrow> Some (ps_combine (subscript ps_new (pershot_snapshots this) kind) y)
         | None \<Rightarrow> map_of (pershot_snapshots this) kind) \<and>
      map_of (average_snapshots
          (combine ps_new ps_combine avg_new avg_combine (enable en this) (enable en_other other))) kind =
        (case map_of (average_snapshots other) kind of
           Some y \<Rightarrow> Some (avg_combine (subscript avg_new (average_snapshots this) kind) y)
         | None \<Rightarrow> map_of (average_snapshots this) kind) \<and>
      map_of (additional_data
          (fst (combine_move ps_new ps_combine avg_new avg_combine (enable en this)
             (enable en_other other)))) key =
        (case map_of (additional_data other) key of
           Some v \<Rightarrow> Some v
         | None \<Rightarrow> map_of (additional_data this) key) \<and>
      map_of (pershot_snapshots
          (fst (combine_move ps_new ps_combine avg_new avg_combine (enable en this)
             (enable en_other other)))) kind =
        (case map_of (pershot_snapshots other) kind of
           Some y \<Rightarrow> Some (ps_combine (subscript ps_new (pershot_snapshots this) kind) y)
         | None \<Rightarrow> map_of (pershot_snapshots this) kind) \<and>
      map_of (average_snapshots
          (fst (combine_move ps_new ps_combine avg_new avg_combine (enable en this)
             (enable en_other other)))) kind =
        (case map_of (average_snapshots other) kind of
           Some y \<Rightarrow> Some (avg_combine (subscript avg_new (average_snapshots this) kind) y)
         | None \<Rightarrow> map_of (average_snapshots this) kind))"
proof -
  have flags: "additional_data (enable b c) = additional_data c"
    "pershot_snapshots (enable b c) = pershot_snapshots c"
    "average_snapshots (enable b c) = average_snapshots c"
    "enabled (enable b c) = b" for b and c :: "('a, 'b, 'c) DataContainer"
    by (simp_all add: enable_def)
  have move: "fst (combine_move ps_new ps_combine avg_new avg_combine x y) =
      combine ps_new ps_combine avg_new avg_combine x y"
    for x y :: "('a, 'b, 'c) DataContainer"
    by (simp add: combine_move_def combine_def)
  have maps: "additional_data (combine ps_new ps_combine avg_new avg_combine x y) =
        assign_each (additional_data y) (additional_data x)"
    "pershot_snapshots (combine ps_new ps_combine avg_new avg_combine x y) =
        combine_each ps_new ps_combine (pershot_snapshots y) (pershot_snapshots x)"
    "average_snapshots (combine ps_new ps_combine avg_new avg_combine x y) =
        combine_each avg_new avg_combine (average_snapshots y) (average_snapshots x)"
    "enabled (combine ps_new ps_combine avg_new avg_combine x y) = enabled x"
    for x y :: "('a, 'b, 'c) DataContainer"
    by (simp_all add: combine_def)
  show ?thesis
    by (simp add: move maps flags keys_of_assign_each keys_of_combine_each well_formed_def
        map_of_assign_each map_of_combine_each split: option.splits)
qed

theorem combine_ignores_enabled_witness:
  "well_formed \<lparr>additional_data = [(''shots'', 20 :: nat)],
       pershot_snapshots = [(''counts'', 2 :: nat)],
       average_snapshots = [(''probs'', 3 :: nat)], enabled = True\<rparr> \<and>
   map_of (additional_data (combine 0 (+) 0 (+)
     (enable True \<lparr>additional_data = [(''shots'', 10 :: nat), (''seed'', 42)],
       pershot_snapshots = [(''counts'', 1 :: nat)],
       average_snapshots = [] :: (string \<times> nat) list, enabled = True\<rparr>)
     (enable False \<lparr>additional_data = [(''shots'', 20 :: nat)],
       pershot_snapshots = [(''counts'', 2 :: nat)],
       average_snapshots = [(''probs'', 3 :: nat)], enabled = True\<rparr>))) ''seed'' = Some 42 \<and>
   map_of (pershot_snapshots (combine 0 (+) 0 (+)
     (enable True \<lparr>additional_data = [(''shots'', 10 :: nat), (''seed'', 42)],
       pershot_snapshots = [(''counts'', 1 :: nat)],
       average_snapshots = [] :: (string \<times> nat) list, enabled = True\<rparr>)
     (enable False \<lparr>additional_data = [(''shots'', 20 :: nat)],
       pershot_snapshots = [(''counts'', 2 :: nat)],
       average_snapshots = [(''probs'', 3 :: nat)], enabled = True\<rparr>))) ''counts'' = Some 3 \<and>
   map_of (pershot_snapshots (fst (combine_move 0 (+) 0 (+)
     (enable True \<lparr>additional_data = [(''shots'', 10 :: nat), (''seed'', 42)],
       pershot_snapshots = [(''counts'', 1 :: nat)],
       average_snapshots = [] :: (string \<times> nat) list, enabled = True\<rparr>)
     (enable False \<lparr>additional_data = [(''shots'', 20 :: nat)],
       pershot_snapshots = [(''counts'', 2 :: nat)],
       average_snapshots = [(''probs'', 3 :: nat)], enabled = True\<rparr>)))) ''counts'' = Some 3"
proof -
  let ?dst = "\<lparr>additional_data = [(''shots'', 10 :: nat), (''seed'', 42)],
       pershot_snapshots = [(''counts'', 1 :: nat)],
       average_snapshots = [] :: (string \<times> nat) list, enabled = True\<rparr>"
  let ?src = "\<lparr>additional_data = [(''shots'', 20 :: nat)],
       pershot_snapshots = [(''counts'', 2 :: nat)],
       average_snapshots = [(''probs'', 3 :: nat)], enabled = True\<rparr>"
  have wf: "well_formed ?src"
    by (simp add: well_formed_def unique_keys_def)
  from wf combine_ignores_enabled [where ps_new = "0 :: nat" and ps_combine = "(+)"
      and avg_new = "0 :: nat" and avg_combine = "(+)" and en = True and en_other = False
      and en' = True and en_other' = True and this = ?dst and other = ?src
      and key = "''seed''" and kind = "''counts''"]
  have "map_of (additional_data (combine 0 (+) 0 (+) (enable True ?dst) (enable False ?src)))
          ''seed'' =
        (case map_of (additional_data ?src) ''seed'' of
           Some v \<Rightarrow> Some v
         | None \<Rightarrow> map_of (additional_data ?dst) ''seed'')"
    and "map_of (pershot_snapshots
            (combine 0 (+) 0 (+) (enable True ?dst) (enable False ?src))) ''counts'' =
        (case map_of (pershot_snapshots ?src) ''counts'' of
           Some y \<Rightarrow> Some (subscript 0 (pershot_snapshots ?dst) ''counts'' + y)
         | None \<Rightarrow> map_of (pershot_snapshots ?dst) ''counts'')"
    and "map_of (pershot_snapshots
            (fst (combine_move 0 (+) 0 (+) (enable True ?dst) (enable False ?src))))
          ''counts'' =
        (case map_of (pershot_snapshots ?src) ''counts'' of
           Some y \<Rightarrow> Some (subscript 0 (pershot_snapshots ?dst) ''counts'' + y)
         | None \<Rightarrow> map_of (pershot_snapshots ?dst) ''counts'')"
    by blast+
  with wf show ?thesis
    by (simp add: subscript_def)
qed

text \<open>
  C6. A disabled export emits nothing. For a container that is not enabled, \<^verbatim>\<open>to_json\<close>
  returns without an exception and leaves the target document, whatever it is, as it was.
\<close>

theorem disabled_export_emits_nothing:
  assumes "\<not> enabled data"
  shows "to_json enc enc_avg enc_ps js data = (None, js)"
  using assms by (simp add: to_json_def)

theorem disabled_export_emits_nothing_witness:
  "\<not> enabled \<lparr>additional_data = [(''shots'', 10 :: nat)],
       pershot_snapshots = [(''counts'', 1 :: nat)],
       average_snapshots = [(''probs'', 3 :: nat)], enabled = False\<rparr> \<and>
   to_json JOther JOther JOther (JObject (fmupd ''header'' (JOther (1 :: nat)) fmempty))
     \<lparr>additional_data = [(''shots'', 10 :: nat)],
       pershot_snapshots = [(''counts'', 1 :: nat)],
       average_snapshots = [(''probs'', 3 :: nat)], enabled = False\<rparr> =
     (None, JObject (fmupd ''header'' (JOther 1) fmempty))"
  using disabled_export_emits_nothing [of
      "\<lparr>additional_data = [(''shots'', 10 :: nat)],
        pershot_snapshots = [(''counts'', 1 :: nat)],
        average_snapshots = [(''probs'', 3 :: nat)], enabled = False\<rparr>"
      JOther JOther JOther "JObject (fmupd ''header'' (JOther (1 :: nat)) fmempty)"]
  by simp

text \<open>
  C7. Clear is total and keeps the gate. After \<^verbatim>\<open>clear()\<close> the three maps are empty and the
  flag is unchanged; the export of the cleared container leaves every document as it was,
  and the export of the cleared, enabled container into an empty (null) document gives the
  null document, with no key and no entry under \<^verbatim>\<open>"snapshots"\<close>.
\<close>

theorem clear_is_total:
  "additional_data (clear c) = [] \<and> pershot_snapshots (clear c) = [] \<and>
   average_snapshots (clear c) = [] \<and> enabled (clear c) = enabled c \<and>
   to_json enc enc_avg enc_ps js (clear c) = (None, js) \<and>
   to_json enc enc_avg enc_ps JNull (enable True (clear c)) = (None, JNull) \<and>
   entry (snd (to_json enc enc_avg enc_ps JNull (enable True (clear c)))) key = None \<and>
   snapshot_entry (snd (to_json enc enc_avg enc_ps JNull (enable True (clear c)))) kind = None"
  by (simp add: clear_def enable_def to_json_def snapshot_entry_def)

text \<open>
  C8. Copy-combine preserves the source, as amended. For two distinct objects the call
  \<^verbatim>\<open>this.combine(other)\<close> in the copy form leaves the object \<open>other\<close> (its three maps and
  its flag) exactly as before the call. For every call, \<^verbatim>\<open>a.combine(a)\<close> included, the flag
  of \<open>other\<close>, the keys of its three maps and (with unique keys) its additional data are as
  before the call; in \<^verbatim>\<open>a.combine(a)\<close> every snapshot of \<open>a\<close> is combined with itself.
\<close>

theorem copy_combine_preserves_source:
  "(other \<noteq> this \<longrightarrow>
      call_combine ps_new ps_combine avg_new avg_combine this other st other = st other) \<and>
   enabled (call_combine ps_new ps_combine avg_new avg_combine this other st other) =
     enabled (st other) \<and>
   keys_of (additional_data (call_combine ps_new ps_combine avg_new avg_combine this other st other)) =
     keys_of (additional_data (st other)) \<and>
   keys_of (pershot_snapshots (call_combine ps_new ps_combine avg_new avg_combine this other st other)) =
     keys_of (pershot_snapshots (st other)) \<and>
   keys_of (average_snapshots (call_combine ps_new ps_combine avg_new avg_combine this other st other)) =
     keys_of (average_snapshots (st other)) \<and>
   (well_formed (st other) \<longrightarrow>
      map_of (additional_data
          (call_combine ps_new ps_combine avg_new avg_combine this other st other)) =
        map_of (additional_data (st other)) \<and>
      (other = this \<longrightarrow>
         map_of (pershot_snapshots
             (call_combine ps_new ps_combine avg_new avg_combine this other st other)) kind =
           map_option (\<lambda>x. ps_combine x x) (map_of (pershot_snapshots (st other)) kind) \<and>
         map_of (average_snapshots
             (call_combine ps_new ps_combine avg_new avg_combine this other st other)) kind =
           map_option (\<lambda>x. avg_combine x x) (map_of (average_snapshots (st other)) kind)))"
proof (cases "other = this")
  case True
  then show ?thesis
    by (simp add: call_combine_def combine_def keys_of_assign_each keys_of_combine_each
        well_formed_def map_of_assign_each_self map_of_combine_each_self)
next
  case False
  then show ?thesis
    by (simp add: call_combine_def)
qed

theorem copy_combine_preserves_source_witness:
  "(1 :: nat) \<noteq> 0 \<and>
   call_combine 0 (+) 0 (+) 0 1
     ((\<lambda>a. new_container)
        (0 := \<lparr>additional_data = [(''shots'', 10 :: nat)],
                pershot_snapshots = [(''counts'', 1 :: nat)],
                average_snapshots = [] :: (string \<times> nat) list, enabled = True\<rparr>,
         1 := \<lparr>additional_data = [(''shots'', 20 :: nat)],
                pershot_snapshots = [(''counts'', 2 :: nat)],
                average_snapshots = [(''probs'', 3 :: nat)], enabled = True\<rparr>)) 1 =
     \<lparr>additional_data = [(''shots'', 20 :: nat)],
       pershot_snapshots = [(''counts'', 2 :: nat)],
       average_snapshots = [(''probs'', 3 :: nat)], enabled = True\<rparr> \<and>
   additional_data (call_combine 0 (+) 0 (+) 0 1
     ((\<lambda>a. new_container)
        (0 := \<lparr>additional_data = [(''shots'', 10 :: nat)],
                pershot_snapshots = [(''counts'', 1 :: nat)],
                average_snapshots = [] :: (string \<times> nat) list, enabled = True\<rparr>,
         1 := \<lparr>additional_data = [(''shots'', 20 :: nat)],
                pershot_snapshots = [(''counts'', 2 :: nat)],
                average_snapshots = [(''probs'', 3 :: nat)], enabled = True\<rparr>)) 0) =
     [(''shots'', 20)]"
  using copy_combine_preserves_source [where other = 1 and this = 0
      and ps_new = "0 :: nat" and ps_combine = "(+)" and avg_new = "0 :: nat"
      and avg_combine = "(+)" and kind = "''counts''"
      and st = "(\<lambda>a. new_container)
        (0 := \<lparr>additional_data = [(''shots'', 10 :: nat)],
                pershot_snapshots = [(''counts'', 1 :: nat)],
                average_snapshots = [] :: (string \<times> nat) list, enabled = True\<rparr>,
         1 := \<lparr>additional_data = [(''shots'', 20 :: nat)],
                pershot_snapshots = [(''counts'', 2 :: nat)],
                average_snapshots = [(''probs'', 3 :: nat)], enabled = True\<rparr>)"]
  by (simp add: call_combine_def combine_def assign_def)

text \<open>
  For \<^verbatim>\<open>a.combine(a)\<close> the source is the destination, and its snapshots change: with
  snapshots that are numbers combined by addition, \<^verbatim>\<open>counts\<close> goes from 1 to 2 and
  \<^verbatim>\<open>probs\<close> from 3 to 6.
\<close>

theorem copy_combine_preserves_source_counterexample:
  "map_of (pershot_snapshots
     (((\<lambda>a. new_container)
        (0 := \<lparr>additional_data = [(''shots'', 10 :: nat)],
                pershot_snapshots = [(''counts'', 1 :: nat)],
                average_snapshots = [(''probs'', 3 :: nat)], enabled = True\<rparr>)) (0 :: nat)))
     ''counts'' = Some 1 \<and>
   map_of (pershot_snapshots
     (call_combine 0 (+) 0 (+) 0 0
        ((\<lambda>a. new_container)
           (0 := \<lparr>additional_data = [(''shots'', 10 :: nat)],
                   pershot_snapshots = [(''counts'', 1 :: nat)],
                   average_snapshots = [(''probs'', 3 :: nat)], enabled = True\<rparr>)) 0))
     ''counts'' = Some 2 \<and>
   map_of (average_snapshots
     (call_combine 0 (+) 0 (+) 0 0
        ((\<lambda>a. new_container)
           (0 := \<lparr>additional_data = [(''shots'', 10 :: nat)],
                   pershot_snapshots = [(''counts'', 1 :: nat)],
                   average_snapshots = [(''probs'', 3 :: nat)], enabled = True\<rparr>)) 0))
     ''probs'' = Some 6"
  by (simp add: call_combine_def combine_def modify_def subscript_def)

text \<open>
  C9. Export kind collision. For an enabled container in which a kind is a key of both
  \<^verbatim>\<open>average_snapshots_\<close> and \<^verbatim>\<open>pershot_snapshots_\<close>, whenever the export returns, the entry of
  the document under \<^verbatim>\<open>"snapshots"\<close> for that kind is the document of the pershot snapshot:
  the pershot loop runs after the average loop. The export does return on every document
  that accepts snapshots (a null document among them), when \<^verbatim>\<open>"snapshots"\<close> is not itself a
  key of the additional data.
\<close>

theorem export_kind_collision:
  assumes "enabled data" and "unique_keys (pershot_snapshots data)"
    and "map_of (average_snapshots data) kind = Some avg"
    and "map_of (pershot_snapshots data) kind = Some ps"
  shows "(fst (to_json enc enc_avg enc_ps js data) = None \<longrightarrow>
            snapshot_entry (snd (to_json enc enc_avg enc_ps js data)) kind = Some (enc_ps ps)) \<and>
         (accepts_snapshots js \<and> ''snapshots'' \<notin> keys_of (additional_data data) \<longrightarrow>
            fst (to_json enc enc_avg enc_ps (js :: 'x json_t) data) = None)"
proof (intro conjI impI)
  let ?r1 = "for_each (\<lambda>pair. set_key (fst pair) (enc (snd pair))) (additional_data data) js"
  let ?r2 = "for_each (\<lambda>pair. set_nested_key ''snapshots'' (fst pair) (enc_avg (snd pair)))
               (average_snapshots data) (snd ?r1)"
  let ?r3 = "for_each (\<lambda>pair. set_nested_key ''snapshots'' (fst pair) (enc_ps (snd pair)))
               (pershot_snapshots data) (snd ?r2)"
  {
    assume returns: "fst (to_json enc enc_avg enc_ps js data) = None"
    then have "to_json enc enc_avg enc_ps js data = ?r3"
      by (simp add: to_json_enabled [OF assms(1)] Let_def split: if_splits)
    moreover from this returns have "fst ?r3 = None" by simp
    then have "snapshot_entry (snd ?r3) kind = Some (enc_ps ps)"
      by (rule for_each_snapshot_entry_present [OF assms(2) assms(4)])
    ultimately show "snapshot_entry (snd (to_json enc enc_avg enc_ps js data)) kind =
        Some (enc_ps ps)"
      by simp
  }
  {
    assume "accepts_snapshots js \<and> ''snapshots'' \<notin> keys_of (additional_data data)"
    then have js: "accepts_snapshots js"
      and extras: "''snapshots'' \<notin> keys_of (additional_data data)"
      by simp_all
    have r1: "fst ?r1 = None \<and> accepts_snapshots (snd ?r1)"
    proof (rule for_each_returns [where P = "accepts_snapshots :: 'x json_t \<Rightarrow> bool"])
      fix pair and s :: "'x json_t"
      assume "pair \<in> set (additional_data data)" and "accepts_snapshots s"
      with extras show "\<exists>s'. set_key (fst pair) (enc (snd pair)) s = Inr s' \<and> accepts_snapshots s'"
        by (intro set_key_accepts) (auto dest: in_keys_of)
    qed (rule js)
    then have r2: "fst ?r2 = None \<and> accepts_snapshots (snd ?r2)"
      by (intro for_each_returns [where P = "accepts_snapshots :: 'x json_t \<Rightarrow> bool"])
        (simp_all add: set_nested_key_accepts)
    then have r3: "fst ?r3 = None \<and> accepts_snapshots (snd ?r3)"
      by (intro for_each_returns [where P = "accepts_snapshots :: 'x json_t \<Rightarrow> bool"])
        (simp_all add: set_nested_key_accepts)
    from r1 r2 r3 show "fst (to_json enc enc_avg enc_ps js data) = None"
      by (simp add: to_json_enabled [OF assms(1)] Let_def)
  }
qed

theorem export_kind_collision_witness:
  "enabled \<lparr>additional_data = [(''shots'', 10 :: nat)], pershot_snapshots = [(''probs'', 7 :: nat)],
       average_snapshots = [(''probs'', 3 :: nat)], enabled = True\<rparr> \<and>
   fst (to_json JOther JOther JOther (JNull :: nat json_t)
     \<lparr>additional_data = [(''shots'', 10 :: nat)], pershot_snapshots = [(''probs'', 7 :: nat)],
       average_snapshots = [(''probs'', 3 :: nat)], enabled = True\<rparr>) = None \<and>
   snapshot_entry (snd (to_json JOther JOther JOther (JNull :: nat json_t)
     \<lparr>additional_data = [(''shots'', 10 :: nat)], pershot_snapshots = [(''probs'', 7 :: nat)],
       average_snapshots = [(''probs'', 3 :: nat)], enabled = True\<rparr>)) ''probs'' = Some (JOther 7)"
  using export_kind_collision [of
      "\<lparr>additional_data = [(''shots'', 10 :: nat)], pershot_snapshots = [(''probs'', 7 :: nat)],
        average_snapshots = [(''probs'', 3 :: nat)], enabled = True\<rparr>"
      "''probs''" 3 7 JOther JOther JOther "JNull :: nat json_t"]
  by (simp add: unique_keys_def keys_of_def accepts_snapshots_def sub_document_def)

text \<open>
  C10. Export preserves unrelated content, as amended. For every container and every
  target document, whether the export returns or throws: a top-level key that is neither a
  key of the additional data nor \<^verbatim>\<open>"snapshots"\<close> keeps its entry; and, provided that
  \<^verbatim>\<open>"snapshots"\<close> is not a key of the additional data, every entry under \<^verbatim>\<open>"snapshots"\<close>
  whose kind is in neither snapshot map keeps its value.
\<close>

theorem export_preserves_unrelated:
  "(key \<notin> keys_of (additional_data data) \<and> key \<noteq> ''snapshots'' \<longrightarrow>
      entry (snd (to_json enc enc_avg enc_ps js data)) key = entry js key) \<and>
   (''snapshots'' \<notin> keys_of (additional_data data) \<and>
    kind \<notin> keys_of (average_snapshots data) \<and> kind \<notin> keys_of (pershot_snapshots data) \<longrightarrow>
      snapshot_entry (snd (to_json enc enc_avg enc_ps js data)) kind = snapshot_entry js kind)"
proof (cases "enabled data")
  case False
  then show ?thesis by (simp add: to_json_def)
next
  case True
  show ?thesis
    by (simp add: to_json_enabled [OF True] Let_def for_each_entry_absent for_each_nested_entry
        for_each_keeps_snapshots for_each_snapshot_entry_absent)
qed

theorem export_preserves_unrelated_witness:
  "entry (snd (to_json JOther JOther JOther
       (JObject (fmupd ''header'' (JOther 1)
          (fmupd ''snapshots'' (JObject (fmupd ''old'' (JOther 2) fmempty)) fmempty)))
       \<lparr>additional_data = [(''shots'', 10 :: nat)], pershot_snapshots = [(''probs'', 7 :: nat)],
         average_snapshots = [(''probs'', 3 :: nat)], enabled = True\<rparr>)) ''header'' =
     Some (JOther (1 :: nat)) \<and>
   snapshot_entry (snd (to_json JOther JOther JOther
       (JObject (fmupd ''header'' (JOther 1)
          (fmupd ''snapshots'' (JObject (fmupd ''old'' (JOther 2) fmempty)) fmempty)))
       \<lparr>additional_data = [(''shots'', 10 :: nat)], pershot_snapshots = [(''probs'', 7 :: nat)],
         average_snapshots = [(''probs'', 3 :: nat)], enabled = True\<rparr>)) ''old'' =
     Some (JOther (2 :: nat))"
  using export_preserves_unrelated [of "''header''"
      "\<lparr>additional_data = [(''shots'', 10 :: nat)], pershot_snapshots = [(''probs'', 7 :: nat)],
         average_snapshots = [(''probs'', 3 :: nat)], enabled = True\<rparr>"
      JOther JOther JOther
      "JObject (fmupd ''header'' (JOther 1)
          (fmupd ''snapshots'' (JObject (fmupd ''old'' (JOther 2) fmempty)) fmempty))"
      "''old''"]
  by (simp add: keys_of_def snapshot_entry_def)

text \<open>
  Without the proviso the second part fails: additional data stored under the key
  \<^verbatim>\<open>"snapshots"\<close> replaces the whole section of the document, and with it the entries of
  kinds that the container does not hold.
\<close>

theorem export_preserves_unrelated_counterexample:
  "enabled \<lparr>additional_data = [(''snapshots'', 5 :: nat)],
       pershot_snapshots = [] :: (string \<times> nat) list,
       average_snapshots = [] :: (string \<times> nat) list, enabled = True\<rparr> \<and>
   ''old'' \<notin> keys_of (average_snapshots \<lparr>additional_data = [(''snapshots'', 5 :: nat)],
       pershot_snapshots = [] :: (string \<times> nat) list,
       average_snapshots = [] :: (string \<times> nat) list, enabled = True\<rparr>) \<and>
   ''old'' \<notin> keys_of (pershot_snapshots \<lparr>additional_data = [(''snapshots'', 5 :: nat)],
       pershot_snapshots = [] :: (string \<times> nat) list,
       average_snapshots = [] :: (string \<times> nat) list, enabled = True\<rparr>) \<and>
   snapshot_entry
     (JObject (fmupd ''snapshots'' (JObject (fmupd ''old'' (JOther 2) fmempty)) fmempty)) ''old'' =
     Some (JOther (2 :: nat)) \<and>
   to_json JOther JOther JOther
     (JObject (fmupd ''snapshots'' (JObject (fmupd ''old'' (JOther 2) fmempty)) fmempty))
     \<lparr>additional_data = [(''snapshots'', 5 :: nat)],
       pershot_snapshots = [] :: (string \<times> nat) list,
       average_snapshots = [] :: (string \<times> nat) list, enabled = True\<rparr> =
     (None, JObject (fmupd ''snapshots'' (JOther 5) fmempty)) \<and>
   snapshot_entry (JObject (fmupd ''snapshots'' (JOther (5 :: nat)) fmempty)) ''old'' = None"
  by (simp add: keys_of_def snapshot_entry_def to_json_def set_key_def)

end
